theory Spec2Isabelle
  imports Complex_Main "HOL-Library.Word"
begin

section \<open>The serial-device session manager of the TriageID frontend\<close>

text \<open>
  The development embeds \<^verbatim>\<open>webapp/frontend/contexts/serial-context.tsx\<close> (the
  \<^verbatim>\<open>SerialProvider\<close> component and \<^verbatim>\<open>useSerialContext\<close>) and, where it differs, the older
  hook \<^verbatim>\<open>useSerial\<close> of \<^verbatim>\<open>hooks/use-serial\<close>.

  Conventions of the embedding:
  \<^item> a JavaScript string is a \<^typ>\<open>string\<close>; a \<^typ>\<open>char\<close> stands for a code unit below 256;
  \<^item> a \<^verbatim>\<open>Uint8Array\<close> is a list of 8-bit words;
  \<^item> a JavaScript number is a \<^typ>\<open>rat\<close> (every finite double is one);
  \<^item> \<^verbatim>\<open>null\<close>/\<^verbatim>\<open>undefined\<close> is \<^const>\<open>None\<close>;
  \<^item> a settled promise is a value of type \<open>'a promise\<close>; what the platform (Web Serial,
    the cookie jar) answers is an argument of the operation that asks;
  \<^item> \<open>connect\<close>, \<open>reconnect\<close>, \<open>disconnect\<close> and \<open>send\<close> are the operations run from their
    call to their end with nothing in between; \<open>step\<close> and \<open>run\<close> take them apart at their
    \<^verbatim>\<open>await\<close>s, so that operations may overlap.
\<close>

subsection \<open>Text primitives\<close>

type_synonym byte = "8 word"

definition LF :: char where
  "LF = CHR 0x0A"

definition CR :: char where
  "CR = CHR 0x0D"

definition DQUOTE :: char where
  "DQUOTE = CHR 0x22"

text \<open>
  White space as \<^verbatim>\<open>String.prototype.trim\<close> and the regular expression class \<^verbatim>\<open>\s\<close> see
  it, among the code units below 256: TAB, LF, VT, FF, CR, SPACE and NBSP.
\<close>

definition is_js_space :: "char \<Rightarrow> bool" where
  "is_js_space c = (c \<in> set [CHR 0x09, CHR 0x0A, CHR 0x0B, CHR 0x0C, CHR 0x0D, CHR 0x20, CHR 0xA0])"

definition trim :: "string \<Rightarrow> string" where
  "trim s = rev (dropWhile is_js_space (rev (dropWhile is_js_space s)))"

definition endsWith :: "string \<Rightarrow> string \<Rightarrow> bool" where
  "endsWith s suffix = (length suffix \<le> length s \<and> drop (length s - length suffix) s = suffix)"

text \<open>
  \<^verbatim>\<open>new TextDecoder().decode(value)\<close> on ASCII bytes, where UTF-8 decoding maps every byte
  to the character of the same code. (For bytes from 0x80 on the platform's decoder emits
  multi-byte characters or U+FFFD; the statements about decoding assume ASCII input.)
\<close>

definition is_ascii :: "byte \<Rightarrow> bool" where
  "is_ascii b = (b < 0x80)"

definition TextDecoder_decode :: "byte list \<Rightarrow> string" where
  "TextDecoder_decode value = map (\<lambda>b. char_of (unat b)) value"

text \<open>\<^verbatim>\<open>new TextEncoder().encode(s)\<close>: UTF-8, one byte below 0x80 and two bytes from there on.\<close>

definition utf8_of_char :: "char \<Rightarrow> byte list" where
  "utf8_of_char c =
     (let n = (of_char c :: nat)
      in if n < 0x80 then [of_nat n] else [of_nat (0xC0 + n div 64), of_nat (0x80 + n mod 64)])"

definition TextEncoder_encode :: "string \<Rightarrow> byte list" where
  "TextEncoder_encode s = concat (map utf8_of_char s)"

subsection \<open>The line framer: \<^verbatim>\<open>readBuffer.split(/\r?\n/)\<close> and \<^verbatim>\<open>lines.pop()\<close>\<close>

text \<open>
  \<^verbatim>\<open>s.split(/\r?\n/)\<close> scans from the left; at each position a CR followed by LF, or a lone
  LF, ends the current segment. A CR that no LF follows stays in its segment. The result
  is never empty.
\<close>

fun split_newline :: "string \<Rightarrow> string list" where
  "split_newline [] = [[]]"
| "split_newline (c # cs) =
     (if c = CR \<and> cs \<noteq> [] \<and> hd cs = LF then [] # split_newline (tl cs)
      else if c = LF then [] # split_newline cs
      else (case split_newline cs of
              [] \<Rightarrow> [[c]]
            | l # ls \<Rightarrow> (c # l) # ls))"

text \<open>\<^verbatim>\<open>lines.pop()\<close>: the last element (\<^verbatim>\<open>undefined\<close> on an empty array) and the array without it.\<close>

definition pop :: "'a list \<Rightarrow> 'a option \<times> 'a list" where
  "pop xs = (if xs = [] then (None, []) else (Some (last xs), butlast xs))"

text \<open>
  Lines 114 to 120 of the provider's read loop: decode the chunk, append it to
  \<^verbatim>\<open>readBuffer\<close>, split, keep the last segment (\<^verbatim>\<open>lines.pop() || ""\<close>) as the new
  \<^verbatim>\<open>readBuffer\<close>, trim the others and skip the empty ones. The result is the list of
  complete lines \<^verbatim>\<open>t\<close> handed to the extractor, and the new \<^verbatim>\<open>readBuffer\<close>.
\<close>

definition feed :: "string \<Rightarrow> byte list \<Rightarrow> string list \<times> string" where
  "feed readBuffer value =
     (let s = TextDecoder_decode value;
          readBuffer1 = readBuffer @ s;
          (popped, lines) = pop (split_newline readBuffer1);
          readBuffer2 = (case popped of None \<Rightarrow> [] | Some l \<Rightarrow> (if l = [] then [] else l))
      in (filter (\<lambda>t. t \<noteq> []) (map trim lines), readBuffer2))"

text \<open>The framer over the chunks of a stream, from a given \<^verbatim>\<open>readBuffer\<close>.\<close>

fun feed_chunks :: "string \<Rightarrow> byte list list \<Rightarrow> string list \<times> string" where
  "feed_chunks readBuffer [] = ([], readBuffer)"
| "feed_chunks readBuffer (value # rest) =
     (let (ts, readBuffer1) = feed readBuffer value;
          (ts', readBuffer2) = feed_chunks readBuffer1 rest
      in (ts @ ts', readBuffer2))"

subsection \<open>The tag-ID extractor\<close>

text \<open>
  \<^verbatim>\<open>t.match(/User ID:\s*"([^"]*)"/)\<close>: the capture of the leftmost match. At a given start
  the text \<^verbatim>\<open>User ID:\<close> must be followed by white space, a double quote, characters other
  than a double quote, and a closing double quote.
\<close>

definition USER_ID_at :: "string \<Rightarrow> string option" where
  "USER_ID_at s =
     (if take 8 s = ''User ID:'' then
        (case dropWhile is_js_space (drop 8 s) of
           [] \<Rightarrow> None
         | q # r \<Rightarrow>
             (if q = DQUOTE \<and> dropWhile (\<lambda>c. c \<noteq> DQUOTE) r \<noteq> []
              then Some (takeWhile (\<lambda>c. c \<noteq> DQUOTE) r) else None))
      else None)"

fun match_USER_ID_REGEX :: "string \<Rightarrow> string option" where
  "match_USER_ID_REGEX [] = USER_ID_at []"
| "match_USER_ID_REGEX (c # cs) =
     (case USER_ID_at (c # cs) of
        Some g \<Rightarrow> Some g
      | None \<Rightarrow> match_USER_ID_REGEX cs)"

text \<open>
  \<^verbatim>\<open>t.match(/^OK\|READ\|(.+)$/)\<close>: the whole text is \<^verbatim>\<open>OK|READ|\<close> and at least one more
  character, none of them a line terminator (which \<^verbatim>\<open>.\<close> does not match).
\<close>

definition match_OK_READ_REGEX :: "string \<Rightarrow> string option" where
  "match_OK_READ_REGEX s =
     (if take 8 s = ''OK|READ|'' \<and> drop 8 s \<noteq> [] \<and> list_all (\<lambda>c. c \<noteq> LF \<and> c \<noteq> CR) (drop 8 s)
      then Some (drop 8 s) else None)"

text \<open>Lines 121 to 127 of the provider's read loop: the variable \<^verbatim>\<open>id\<close> for a trimmed line.\<close>

definition tag_id :: "string \<Rightarrow> string option" where
  "tag_id t =
     (case match_USER_ID_REGEX t of
        Some g \<Rightarrow> Some (trim g)
      | None \<Rightarrow>
          (case match_OK_READ_REGEX t of
             Some g \<Rightarrow> Some (trim g)
           | None \<Rightarrow> None))"

text \<open>
  Line 128: \<^verbatim>\<open>if (id != null && id !== "") onTagReadRef.current?.(id)\<close>. A consumer is
  known by a number; the result lists the calls made, each with the consumer called and
  its argument.
\<close>

definition on_line :: "nat option \<Rightarrow> string \<Rightarrow> (nat \<times> string) list" where
  "on_line onTagRead t =
     (case tag_id t of
        None \<Rightarrow> []
      | Some ident \<Rightarrow>
          (if ident \<noteq> [] then (case onTagRead of None \<Rightarrow> [] | Some k \<Rightarrow> [(k, ident)]) else []))"

text \<open>
  The same lines in the hook \<^verbatim>\<open>useSerial\<close>: only the menu-mode shape is looked for, and the
  consumer (always present there) is called whatever the trimmed capture is.
\<close>

definition useSerial_on_line :: "nat \<Rightarrow> string \<Rightarrow> (nat \<times> string) list" where
  "useSerial_on_line onTagRead t =
     (case match_USER_ID_REGEX t of
        None \<Rightarrow> []
      | Some g \<Rightarrow> [(onTagRead, trim g)])"

text \<open>One iteration of the provider's loop body on a chunk: framing, then every line.\<close>

definition on_chunk :: "nat option \<Rightarrow> string \<Rightarrow> byte list \<Rightarrow> (nat \<times> string) list \<times> string" where
  "on_chunk onTagRead readBuffer value =
     (let (ts, readBuffer1) = feed readBuffer value
      in (concat (map (on_line onTagRead) ts), readBuffer1))"

subsection \<open>The persisted device filter store\<close>

record SerialPortFilter =
  usbVendorId :: rat
  usbProductId :: rat

datatype json =
    JNull
  | JBool bool
  | JNumber rat
  | JString string
  | JArray "json list"
  | JObject "(string \<times> json) list"

text \<open>
  The text stored under the cookie \<^verbatim>\<open>triageid_serial_filter\<close> is known by what
  \<^verbatim>\<open>JSON.parse(decodeURIComponent(text))\<close> makes of it: \<^verbatim>\<open>decodeURIComponent\<close> throws a
  URIError, or \<^verbatim>\<open>JSON.parse\<close> throws a SyntaxError, or a value comes back. These two and
  their inverses \<^verbatim>\<open>encodeURIComponent\<close> and \<^verbatim>\<open>JSON.stringify\<close> belong to the platform; that
  the former undo the latter on an object of two finite numbers is taken from there.
  The members of a \<^const>\<open>JObject\<close> are its own properties, each key once.
\<close>

datatype cookie_text =
    Throws_URIError
  | Throws_SyntaxError
  | Parses_to json

text \<open>
  \<^verbatim>\<open>document\<close> is \<^const>\<open>None\<close> where \<^verbatim>\<open>typeof document === "undefined"\<close>; otherwise it holds
  the cookie named \<^verbatim>\<open>triageid_serial_filter\<close>, or \<^const>\<open>None\<close> where the jar has none (the
  regular expression on \<^verbatim>\<open>document.cookie\<close> finds no match). The expiry of the cookie
  after 365 days is outside the model.
\<close>

type_synonym document = "cookie_text option"

text \<open>\<^verbatim>\<open>typeof parsed?.name === "number"\<close>\<close>

definition member_is_number :: "json \<Rightarrow> string \<Rightarrow> bool" where
  "member_is_number parsed name =
     (case parsed of
        JObject members \<Rightarrow> (case map_of members name of Some (JNumber n) \<Rightarrow> True | _ \<Rightarrow> False)
      | _ \<Rightarrow> False)"

definition number_member :: "json \<Rightarrow> string \<Rightarrow> rat" where
  "number_member parsed name =
     (case parsed of
        JObject members \<Rightarrow> (case map_of members name of Some (JNumber n) \<Rightarrow> n | _ \<Rightarrow> 0)
      | _ \<Rightarrow> 0)"

text \<open>
  Of the object returned, the callers read the two members only; the result is the record
  of these.
\<close>

definition getSerialFilterFromCookie :: "document option \<Rightarrow> SerialPortFilter option" where
  "getSerialFilterFromCookie doc =
     (case doc of
        None \<Rightarrow> None
      | Some jar \<Rightarrow>
          (case jar of
             None \<Rightarrow> None
           | Some Throws_URIError \<Rightarrow> None
           | Some Throws_SyntaxError \<Rightarrow> None
           | Some (Parses_to parsed) \<Rightarrow>
               (if member_is_number parsed ''usbVendorId'' \<and> member_is_number parsed ''usbProductId''
                then Some \<lparr>usbVendorId = number_member parsed ''usbVendorId'',
                           usbProductId = number_member parsed ''usbProductId''\<rparr>
                else None)))"

definition setSerialFilterCookie :: "SerialPortFilter \<Rightarrow> document option \<Rightarrow> document option" where
  "setSerialFilterCookie flt doc =
     (case doc of
        None \<Rightarrow> None
      | Some jar \<Rightarrow>
          Some (Some (Parses_to (JObject [(''usbVendorId'', JNumber (usbVendorId flt)),
                                          (''usbProductId'', JNumber (usbProductId flt))]))))"

definition clearSerialFilterCookie :: "document option \<Rightarrow> document option" where
  "clearSerialFilterCookie doc =
     (case doc of
        None \<Rightarrow> None
      | Some jar \<Rightarrow> Some None)"

subsection \<open>The session manager\<close>

text \<open>What a rejected promise or a \<^verbatim>\<open>throw\<close> carries: an \<^verbatim>\<open>Error\<close> with its message, or anything else.\<close>

datatype thrown =
    Error string
  | Not_an_Error

datatype 'a promise =
    Resolved 'a
  | Rejected thrown

record port_info =
  info_usbVendorId :: "rat option"
  info_usbProductId :: "rat option"

text \<open>A port is known by a number; \<open>getInfo\<close> is \<^const>\<open>None\<close> where the method is missing.\<close>

record SerialPort =
  port_id :: nat
  getInfo :: "port_info option"

text \<open>
  The state of a \<^verbatim>\<open>SerialProvider\<close>: its four \<^verbatim>\<open>useState\<close> cells and five \<^verbatim>\<open>useRef\<close> cells,
  then what it acts on: the document, the set of ports that are open, the ports whose
  \<^verbatim>\<open>readLoop()\<close> has been started, and the calls of \<^verbatim>\<open>write\<close>, each with the port written
  to and the bytes. A reader or a writer is known by the number of its port.
\<close>

record serial_state =
  isSupported :: bool
  isConnected :: bool
  isReconnecting :: bool
  error :: "string option"
  onTagReadRef :: "nat option"
  portRef :: "SerialPort option"
  readerRef :: "nat option"
  writerRef :: "nat option"
  abortRef :: bool
  document :: "document option"
  open_ports :: "nat set"
  readLoops :: "nat list"
  written :: "(nat \<times> byte list) list"

definition initial_state :: "document option \<Rightarrow> serial_state" where
  "initial_state doc =
     \<lparr>isSupported = False, isConnected = False, isReconnecting = False, error = None,
      onTagReadRef = None, portRef = None, readerRef = None, writerRef = None,
      abortRef = False, document = doc, open_ports = {}, readLoops = [], written = []\<rparr>"

definition setOnTagRead :: "nat option \<Rightarrow> serial_state \<Rightarrow> serial_state" where
  "setOnTagRead callback st = st\<lparr>onTagReadRef := callback\<rparr>"

text \<open>\<^verbatim>\<open>info?.usbVendorId != null && info?.usbProductId != null\<close>, with the two numbers.\<close>

definition info_ids :: "port_info option \<Rightarrow> (rat \<times> rat) option" where
  "info_ids info =
     (case info of
        None \<Rightarrow> None
      | Some i \<Rightarrow>
          (case info_usbVendorId i of
             None \<Rightarrow> None
           | Some v \<Rightarrow> (case info_usbProductId i of None \<Rightarrow> None | Some p \<Rightarrow> Some (v, p))))"

text \<open>\<^verbatim>\<open>openPortAndRead(port)\<close>, called with a port that has just been opened.\<close>

definition openPortAndRead :: "SerialPort \<Rightarrow> serial_state \<Rightarrow> serial_state" where
  "openPortAndRead port st =
     (let st1 = st\<lparr>portRef := Some port, writerRef := Some (port_id port),
                   readerRef := Some (port_id port), isConnected := True, error := None\<rparr>;
          info = getInfo port;
          st2 = (case info_ids info of
                   None \<Rightarrow> st1
                 | Some (v, p) \<Rightarrow>
                     st1\<lparr>document :=
                       setSerialFilterCookie \<lparr>usbVendorId = v, usbProductId = p\<rparr> (document st1)\<rparr>)
      in st2\<lparr>readLoops := readLoops st2 @ [port_id port]\<rparr>)"

text \<open>
  What the platform answers during one call of \<^verbatim>\<open>connect()\<close>: whether
  \<^verbatim>\<open>navigator.serial\<close> is there, how \<^verbatim>\<open>requestPort\<close> settles for the options passed, and how
  \<^verbatim>\<open>port.open\<close> settles.
\<close>

record connect_env =
  nav_serial :: bool
  requestPort :: "SerialPortFilter option \<Rightarrow> SerialPort promise"
  port_open :: "SerialPort \<Rightarrow> unit promise"

definition message_or :: "thrown \<Rightarrow> string \<Rightarrow> string" where
  "message_or e fallback = (case e of Error m \<Rightarrow> m | Not_an_Error \<Rightarrow> fallback)"

text \<open>The \<^verbatim>\<open>catch\<close> block of \<^verbatim>\<open>connect()\<close>.\<close>

definition connect_catch :: "thrown \<Rightarrow> serial_state \<Rightarrow> serial_state" where
  "connect_catch e st =
     st\<lparr>document := clearSerialFilterCookie (document st),
        error := Some (message_or e ''Connection failed''),
        isConnected := False\<rparr>"

definition connect :: "connect_env \<Rightarrow> serial_state \<Rightarrow> unit promise \<times> serial_state" where
  "connect env st =
     (if \<not> nav_serial env
      then (Resolved (), st\<lparr>error := Some ''Web Serial not supported. Use Chrome or Edge.''\<rparr>)
      else
        (let st1 = st\<lparr>error := None, abortRef := False\<rparr>;
             savedFilter = getSerialFilterFromCookie (document st1)
         in case requestPort env savedFilter of
              Rejected e \<Rightarrow> (Resolved (), connect_catch e st1)
            | Resolved port \<Rightarrow>
                (case port_open env port of
                   Rejected e \<Rightarrow> (Resolved (), connect_catch e st1)
                 | Resolved u \<Rightarrow>
                     (Resolved (),
                      openPortAndRead port
                        (st1\<lparr>open_ports := insert (port_id port) (open_ports st1)\<rparr>)))))"

text \<open>
  What the platform answers during the reconnect effect: \<open>cancelled_early\<close> says that the
  cleanup of the effect ran before \<^verbatim>\<open>getPorts()\<close> settled, \<open>cancelled_late\<close> that it ran
  before \<^verbatim>\<open>port.open\<close> settled. The cleanup itself sets \<^verbatim>\<open>isReconnecting\<close> to false.
\<close>

record reconnect_env =
  r_nav_serial :: bool
  getPorts :: "SerialPort list promise"
  r_port_open :: "SerialPort \<Rightarrow> unit promise"
  cancelled_early :: bool
  cancelled_late :: bool

definition port_matches :: "SerialPortFilter \<Rightarrow> SerialPort \<Rightarrow> bool" where
  "port_matches savedFilter port =
     (case getInfo port of
        None \<Rightarrow> False
      | Some info \<Rightarrow>
          info_usbVendorId info = Some (usbVendorId savedFilter) \<and>
          info_usbProductId info = Some (usbProductId savedFilter))"

text \<open>
  The chooser of \<^verbatim>\<open>requestPort\<close> offers every port when it is passed no filter, and the
  ports that match the filter otherwise (Web Serial; a filter of \<^verbatim>\<open>getSerialFilterFromCookie\<close>
  has both members).
\<close>

definition offered :: "SerialPortFilter option \<Rightarrow> SerialPort \<Rightarrow> bool" where
  "offered options port =
     (case options of
        None \<Rightarrow> True
      | Some savedFilter \<Rightarrow> port_matches savedFilter port)"

text \<open>The vendor/product identity of a port, where it reports both.\<close>

definition port_identity :: "SerialPort \<Rightarrow> SerialPortFilter option" where
  "port_identity port =
     (case info_ids (getInfo port) of
        None \<Rightarrow> None
      | Some (v, p) \<Rightarrow> Some \<lparr>usbVendorId = v, usbProductId = p\<rparr>)"

definition reconnect :: "reconnect_env \<Rightarrow> serial_state \<Rightarrow> serial_state" where
  "reconnect env st =
     (if \<not> r_nav_serial env then st
      else
        (case getSerialFilterFromCookie (document st) of
           None \<Rightarrow> st
         | Some savedFilter \<Rightarrow>
             (let st1 = st\<lparr>isReconnecting := True\<rparr>
              in if cancelled_early env then st1\<lparr>isReconnecting := False\<rparr>
                 else
                   (case getPorts env of
                      Rejected e \<Rightarrow> st1\<lparr>isReconnecting := False\<rparr>
                    | Resolved ports \<Rightarrow>
                        (case find (port_matches savedFilter) ports of
                           None \<Rightarrow> st1\<lparr>isReconnecting := False\<rparr>
                         | Some port \<Rightarrow>
                             (case r_port_open env port of
                                Rejected e \<Rightarrow>
                                  st1\<lparr>document := clearSerialFilterCookie (document st1),
                                      isReconnecting := False\<rparr>
                              | Resolved u \<Rightarrow>
                                  (let st2 = st1\<lparr>open_ports := insert (port_id port) (open_ports st1)\<rparr>
                                   in if cancelled_late env then st2\<lparr>isReconnecting := False\<rparr>
                                      else (openPortAndRead port (st2\<lparr>abortRef := False\<rparr>))
                                             \<lparr>isReconnecting := False\<rparr>)))))))"

text \<open>
  \<^verbatim>\<open>send(text)\<close>; \<open>write_result\<close> is how \<^verbatim>\<open>writer.write(data)\<close> settles. The call of
  \<^verbatim>\<open>write\<close> is recorded whatever its result, and a rejection reaches the caller.
\<close>

definition send :: "string \<Rightarrow> unit promise \<Rightarrow> serial_state \<Rightarrow> unit promise \<times> serial_state" where
  "send text write_result st =
     (case writerRef st of
        None \<Rightarrow> (Resolved (), st)
      | Some w \<Rightarrow>
          (let data = TextEncoder_encode (if endsWith text [LF] then text else text @ [LF])
           in (write_result, st\<lparr>written := written st @ [(w, data)]\<rparr>)))"

text \<open>
  \<^verbatim>\<open>disconnect()\<close>; the three promises are how \<^verbatim>\<open>reader.cancel()\<close>, \<^verbatim>\<open>writer.close()\<close> and
  \<^verbatim>\<open>port.close()\<close> settle. A port whose \<^verbatim>\<open>close()\<close> resolves is open no more; one whose
  \<^verbatim>\<open>close()\<close> rejects stays as it was.
\<close>

record disconnect_env =
  reader_cancel :: "unit promise"
  writer_close :: "unit promise"
  port_close :: "unit promise"

definition disconnect :: "disconnect_env \<Rightarrow> serial_state \<Rightarrow> unit promise \<times> serial_state" where
  "disconnect env st =
     (let st1 = st\<lparr>abortRef := True\<rparr>;
          st2 = (case readerRef st1 of
                   None \<Rightarrow> st1
                 | Some r \<Rightarrow>
                     (case reader_cancel env of
                        Resolved u \<Rightarrow> st1\<lparr>readerRef := None\<rparr>
                      | Rejected e \<Rightarrow> st1\<lparr>readerRef := None\<rparr>));
          st3 = (case writerRef st2 of
                   None \<Rightarrow> st2
                 | Some w \<Rightarrow>
                     (case writer_close env of
                        Resolved u \<Rightarrow> st2\<lparr>writerRef := None\<rparr>
                      | Rejected e \<Rightarrow> st2\<lparr>writerRef := None\<rparr>));
          st4 = (case portRef st3 of
                   None \<Rightarrow> st3
                 | Some port \<Rightarrow>
                     (case port_close env of
                        Resolved u \<Rightarrow>
                          st3\<lparr>open_ports := open_ports st3 - {port_id port}, portRef := None\<rparr>
                      | Rejected e \<Rightarrow> st3\<lparr>portRef := None\<rparr>))
      in (Resolved (), st4\<lparr>isConnected := False, error := None\<rparr>))"

subsection \<open>The connection state\<close>

text \<open>The first effect of the provider (lines 87 to 89): the platform is probed once.\<close>

definition probe :: "bool \<Rightarrow> serial_state \<Rightarrow> serial_state" where
  "probe serial_in_navigator st = st\<lparr>isSupported := serial_in_navigator\<rparr>"

datatype ConnectionState =
    Unsupported
  | Disconnected
  | Reconnecting
  | Connected

text \<open>
  Modelled from the spec: the variant \<^verbatim>\<open>ConnectionState\<close> of the spec's data model is no
  type of the code, which keeps the three flags. They are read as the dashboard reads them
  (\<^verbatim>\<open>app/dashboard/layout.tsx\<close>, lines 825 to 833): nothing is shown without
  \<^verbatim>\<open>isSupported\<close>, then \<^verbatim>\<open>isReconnecting\<close> comes before \<^verbatim>\<open>isConnected\<close>.
\<close>

definition connection_state :: "serial_state \<Rightarrow> ConnectionState" where
  "connection_state st =
     (if \<not> isSupported st then Unsupported
      else if isReconnecting st then Reconnecting
      else if isConnected st then Connected
      else Disconnected)"

subsection \<open>Operations that overlap\<close>

text \<open>
  \<^verbatim>\<open>connect()\<close>, the reconnect effect and \<^verbatim>\<open>disconnect()\<close> suspend at each \<^verbatim>\<open>await\<close> (or
  \<^verbatim>\<open>then\<close>), and other operations may run before they go on. A task is an operation
  suspended at one of these places, with what it holds there: the options passed to
  \<^verbatim>\<open>requestPort\<close>, the port being opened, the \<^verbatim>\<open>savedFilter\<close> of the effect, the port being
  closed.
\<close>

datatype task =
    Await_requestPort "SerialPortFilter option"
  | Await_open SerialPort
  | Await_getPorts SerialPortFilter
  | Await_reopen SerialPort
  | Await_cancel
  | Await_writer_close
  | Await_port_close SerialPort

text \<open>
  The provider with its suspended operations. \<open>cancelled\<close> is the local variable of the
  reconnect effect: \<^const>\<open>None\<close> as long as the effect has registered no cleanup.
\<close>

record system =
  core :: serial_state
  pending :: "task list"
  cancelled :: "bool option"

definition idle :: "serial_state \<Rightarrow> system" where
  "idle st = \<lparr>core = st, pending = [], cancelled = None\<rparr>"

text \<open>
  What happens to a provider: an operation is called, or the promise that a task waits
  for settles. The effect takes whether \<^verbatim>\<open>navigator.serial\<close> is there, as
  \<^verbatim>\<open>connect()\<close> does.
\<close>

datatype event =
    Call_connect bool
  | RequestPort_settles "SerialPortFilter option" "SerialPort promise"
  | Open_settles SerialPort "unit promise"
  | Mount_effect bool
  | GetPorts_settles SerialPortFilter "SerialPort list promise"
  | Reopen_settles SerialPort "unit promise"
  | Cleanup
  | Call_disconnect
  | Cancel_settles "unit promise"
  | Writer_close_settles "unit promise"
  | Port_close_settles SerialPort "unit promise"
  | Call_send string "unit promise"
  | Call_setOnTagRead "nat option"

text \<open>The task that a settling promise wakes up.\<close>

fun task_of :: "event \<Rightarrow> task option" where
  "task_of (RequestPort_settles options r) = Some (Await_requestPort options)"
| "task_of (Open_settles port r) = Some (Await_open port)"
| "task_of (GetPorts_settles savedFilter r) = Some (Await_getPorts savedFilter)"
| "task_of (Reopen_settles port r) = Some (Await_reopen port)"
| "task_of (Cancel_settles r) = Some Await_cancel"
| "task_of (Writer_close_settles r) = Some Await_writer_close"
| "task_of (Port_close_settles port r) = Some (Await_port_close port)"
| "task_of e = None"

definition suspend :: "task \<Rightarrow> system \<Rightarrow> system" where
  "suspend t s = s\<lparr>pending := pending s @ [t]\<rparr>"

text \<open>\<^verbatim>\<open>disconnect()\<close> from its last two statements, from its third \<^verbatim>\<open>if\<close>, and from its second.\<close>

definition disconnect_end :: "system \<Rightarrow> system" where
  "disconnect_end s = s\<lparr>core := (core s)\<lparr>isConnected := False, error := None\<rparr>\<rparr>"

definition disconnect_port :: "system \<Rightarrow> system" where
  "disconnect_port s =
     (case portRef (core s) of
        None \<Rightarrow> disconnect_end s
      | Some port \<Rightarrow> suspend (Await_port_close port) s)"

definition disconnect_writer :: "system \<Rightarrow> system" where
  "disconnect_writer s =
     (case writerRef (core s) of
        None \<Rightarrow> disconnect_port s
      | Some w \<Rightarrow> suspend Await_writer_close s)"

text \<open>An operation is called; it runs up to its first \<^verbatim>\<open>await\<close>, or to its end.\<close>

fun call :: "event \<Rightarrow> system \<Rightarrow> system" where
  "call (Call_connect nav) s =
     (if \<not> nav
      then s\<lparr>core := (core s)\<lparr>error := Some ''Web Serial not supported. Use Chrome or Edge.''\<rparr>\<rparr>
      else
        (let st1 = (core s)\<lparr>error := None, abortRef := False\<rparr>;
             savedFilter = getSerialFilterFromCookie (document st1)
         in suspend (Await_requestPort savedFilter) (s\<lparr>core := st1\<rparr>)))"
| "call (Mount_effect nav) s =
     (if \<not> nav then s
      else
        (case getSerialFilterFromCookie (document (core s)) of
           None \<Rightarrow> s
         | Some savedFilter \<Rightarrow>
             suspend (Await_getPorts savedFilter)
               (s\<lparr>core := (core s)\<lparr>isReconnecting := True\<rparr>, cancelled := Some False\<rparr>)))"
| "call Cleanup s =
     (case cancelled s of
        None \<Rightarrow> s
      | Some c \<Rightarrow> s\<lparr>core := (core s)\<lparr>isReconnecting := False\<rparr>, cancelled := Some True\<rparr>)"
| "call Call_disconnect s =
     (let s1 = s\<lparr>core := (core s)\<lparr>abortRef := True\<rparr>\<rparr>
      in case readerRef (core s1) of
           None \<Rightarrow> disconnect_writer s1
         | Some r \<Rightarrow> suspend Await_cancel s1)"
| "call (Call_send text write_result) s = s\<lparr>core := snd (send text write_result (core s))\<rparr>"
| "call (Call_setOnTagRead callback) s = s\<lparr>core := setOnTagRead callback (core s)\<rparr>"
| "call e s = s"

text \<open>
  A promise settles and its task goes on, up to the next \<^verbatim>\<open>await\<close> or to the end. A port
  whose \<^verbatim>\<open>open()\<close> resolves is open from then on.
\<close>

fun resume :: "event \<Rightarrow> system \<Rightarrow> system" where
  "resume (RequestPort_settles options r) s =
     (case r of
        Rejected e \<Rightarrow> s\<lparr>core := connect_catch e (core s)\<rparr>
      | Resolved port \<Rightarrow> suspend (Await_open port) s)"
| "resume (Open_settles port r) s =
     (case r of
        Rejected e \<Rightarrow> s\<lparr>core := connect_catch e (core s)\<rparr>
      | Resolved u \<Rightarrow>
          s\<lparr>core := openPortAndRead port
                      ((core s)\<lparr>open_ports := insert (port_id port) (open_ports (core s))\<rparr>)\<rparr>)"
| "resume (GetPorts_settles savedFilter r) s =
     (case r of
        Rejected e \<Rightarrow> s\<lparr>core := (core s)\<lparr>isReconnecting := False\<rparr>\<rparr>
      | Resolved ports \<Rightarrow>
          (if cancelled s = Some True then s
           else
             (case find (port_matches savedFilter) ports of
                None \<Rightarrow> s\<lparr>core := (core s)\<lparr>isReconnecting := False\<rparr>\<rparr>
              | Some port \<Rightarrow> suspend (Await_reopen port) s)))"
| "resume (Reopen_settles port r) s =
     (let s1 =
        (case r of
           Rejected e \<Rightarrow>
             s\<lparr>core := (core s)\<lparr>document := clearSerialFilterCookie (document (core s))\<rparr>\<rparr>
         | Resolved u \<Rightarrow>
             (let st1 = (core s)\<lparr>open_ports := insert (port_id port) (open_ports (core s))\<rparr>
              in if cancelled s = Some True then s\<lparr>core := st1\<rparr>
                 else s\<lparr>core := openPortAndRead port (st1\<lparr>abortRef := False\<rparr>)\<rparr>))
      in if cancelled s1 = Some True then s1
         else s1\<lparr>core := (core s1)\<lparr>isReconnecting := False\<rparr>\<rparr>)"
| "resume (Cancel_settles r) s =
     (case r of
        Resolved u \<Rightarrow> disconnect_writer (s\<lparr>core := (core s)\<lparr>readerRef := None\<rparr>\<rparr>)
      | Rejected e \<Rightarrow> disconnect_writer (s\<lparr>core := (core s)\<lparr>readerRef := None\<rparr>\<rparr>))"
| "resume (Writer_close_settles r) s =
     (case r of
        Resolved u \<Rightarrow> disconnect_port (s\<lparr>core := (core s)\<lparr>writerRef := None\<rparr>\<rparr>)
      | Rejected e \<Rightarrow> disconnect_port (s\<lparr>core := (core s)\<lparr>writerRef := None\<rparr>\<rparr>))"
| "resume (Port_close_settles port r) s =
     (case r of
        Resolved u \<Rightarrow>
          disconnect_end
            (s\<lparr>core := (core s)\<lparr>open_ports := open_ports (core s) - {port_id port}, portRef := None\<rparr>\<rparr>)
      | Rejected e \<Rightarrow> disconnect_end (s\<lparr>core := (core s)\<lparr>portRef := None\<rparr>\<rparr>))"
| "resume e s = s"

text \<open>A promise settles only for a task that waits for it; the task is then pending no more.\<close>

definition step :: "event \<Rightarrow> system \<Rightarrow> system" where
  "step e s =
     (case task_of e of
        None \<Rightarrow> call e s
      | Some t \<Rightarrow>
          (if t \<in> set (pending s) then resume e (s\<lparr>pending := remove1 t (pending s)\<rparr>) else s))"

fun run :: "event list \<Rightarrow> system \<Rightarrow> system" where
  "run [] s = s"
| "run (e # es) s = run es (step e s)"




text \<open>Every open port is the one held in \<^verbatim>\<open>portRef\<close>.\<close>

definition only_held_open :: "serial_state \<Rightarrow> bool" where
  "only_held_open st =
     (open_ports st \<subseteq> (case portRef st of None \<Rightarrow> {} | Some port \<Rightarrow> {port_id port}))"

text \<open>
  The same with an operation pending: while a device is being asked for, none is held and
  none is open; while a \<^verbatim>\<open>disconnect()\<close> closes a port, no other port is open.
\<close>

fun task_one_device :: "task \<Rightarrow> system \<Rightarrow> bool" where
  "task_one_device (Await_requestPort options) s =
     (portRef (core s) = None \<and> open_ports (core s) = {})"
| "task_one_device (Await_open port) s =
     (portRef (core s) = None \<and> open_ports (core s) = {})"
| "task_one_device (Await_getPorts savedFilter) s =
     (portRef (core s) = None \<and> open_ports (core s) = {})"
| "task_one_device (Await_reopen port) s =
     (portRef (core s) = None \<and> open_ports (core s) = {} \<and> cancelled s \<noteq> Some True)"
| "task_one_device Await_cancel s = only_held_open (core s)"
| "task_one_device Await_writer_close s = only_held_open (core s)"
| "task_one_device (Await_port_close port) s = (open_ports (core s) \<subseteq> {port_id port})"

fun tasks_one_device :: "task list \<Rightarrow> system \<Rightarrow> bool" where
  "tasks_one_device [] s = only_held_open (core s)"
| "tasks_one_device [t] s = task_one_device t s"
| "tasks_one_device ts s = False"

definition one_device :: "system \<Rightarrow> bool" where
  "one_device s = tasks_one_device (pending s) s"

subsection \<open>\<^verbatim>\<open>useSerialContext\<close>\<close>

text \<open>
  The value of the context; its four operations act on some world \<open>'w\<close>. An \<^verbatim>\<open>async\<close>
  operation gives the settled promise and the world after it.
\<close>

record 'w SerialContextValue =
  cv_isSupported :: bool
  cv_isConnected :: bool
  cv_isReconnecting :: bool
  cv_error :: "string option"
  cv_connect :: "'w \<Rightarrow> unit promise \<times> 'w"
  cv_disconnect :: "'w \<Rightarrow> unit promise \<times> 'w"
  cv_send :: "string \<Rightarrow> 'w \<Rightarrow> unit promise \<times> 'w"
  cv_setOnTagRead :: "nat option \<Rightarrow> 'w \<Rightarrow> 'w"

text \<open>\<open>ctx\<close> is what \<^verbatim>\<open>useContext(SerialContext)\<close> returns: \<^const>\<open>None\<close> outside of a provider.\<close>

definition useSerialContext :: "'w SerialContextValue option \<Rightarrow> 'w SerialContextValue" where
  "useSerialContext ctx =
     (case ctx of
        None \<Rightarrow>
          \<lparr>cv_isSupported = False, cv_isConnected = False, cv_isReconnecting = False,
           cv_error = None,
           cv_connect = (\<lambda>w. (Resolved (), w)),
           cv_disconnect = (\<lambda>w. (Resolved (), w)),
           cv_send = (\<lambda>text w. (Resolved (), w)),
           cv_setOnTagRead = (\<lambda>callback w. w)\<rparr>
      | Some v \<Rightarrow> v)"

subsection \<open>Scenarios\<close>

text \<open>
  Two USB readers of different models, a second reader of the model of \<open>reader_A\<close>, and a
  port that reports no USB identity (\<^verbatim>\<open>getInfo()\<close> gives \<^verbatim>\<open>{}\<close>).
\<close>

definition reader_A :: SerialPort where
  "reader_A = \<lparr>port_id = 1,
      getInfo = Some \<lparr>info_usbVendorId = Some 9025, info_usbProductId = Some 67\<rparr>\<rparr>"

definition reader_B :: SerialPort where
  "reader_B = \<lparr>port_id = 2,
      getInfo = Some \<lparr>info_usbVendorId = Some 6790, info_usbProductId = Some 29987\<rparr>\<rparr>"

definition reader_A2 :: SerialPort where
  "reader_A2 = \<lparr>port_id = 4,
      getInfo = Some \<lparr>info_usbVendorId = Some 9025, info_usbProductId = Some 67\<rparr>\<rparr>"

definition plain_port :: SerialPort where
  "plain_port = \<lparr>port_id = 3,
      getInfo = Some \<lparr>info_usbVendorId = None, info_usbProductId = None\<rparr>\<rparr>"

text \<open>The user selects \<open>port\<close>, if the chooser offers it, and it opens.\<close>

definition selecting :: "SerialPort \<Rightarrow> connect_env" where
  "selecting port =
     \<lparr>nav_serial = True,
      requestPort = (\<lambda>options. if offered options port then Resolved port
                               else Rejected (Error ''No port selected by the user.'')),
      port_open = (\<lambda>p. Resolved ())\<rparr>"

text \<open>The user dismisses the chooser.\<close>

definition cancelling :: connect_env where
  "cancelling =
     \<lparr>nav_serial = True,
      requestPort = (\<lambda>options. Rejected (Error ''No port selected by the user.'')),
      port_open = (\<lambda>p. Resolved ())\<rparr>"

text \<open>The user selects \<open>port\<close>, if the chooser offers it, and it does not open.\<close>

definition not_opening :: "SerialPort \<Rightarrow> connect_env" where
  "not_opening port =
     \<lparr>nav_serial = True,
      requestPort = (\<lambda>options. if offered options port then Resolved port
                               else Rejected (Error ''No port selected by the user.'')),
      port_open = (\<lambda>p. Rejected (Error ''Failed to open serial port.''))\<rparr>"

text \<open>A \<^verbatim>\<open>disconnect()\<close> whose three steps resolve, and one whose three steps reject.\<close>

definition closing :: disconnect_env where
  "closing = \<lparr>reader_cancel = Resolved (), writer_close = Resolved (), port_close = Resolved ()\<rparr>"

definition closing_badly :: disconnect_env where
  "closing_badly =
     \<lparr>reader_cancel = Rejected Not_an_Error, writer_close = Rejected Not_an_Error,
      port_close = Rejected (Error ''The port is already closed.'')\<rparr>"

text \<open>
  The reconnect effect on a mounted provider: the ports the user authorized before, and
  whether a port opens.
\<close>

definition resuming :: "SerialPort list \<Rightarrow> bool \<Rightarrow> reconnect_env" where
  "resuming ports opens =
     \<lparr>r_nav_serial = True,
      getPorts = Resolved ports,
      r_port_open = (\<lambda>p. if opens then Resolved () else Rejected (Error ''Failed to open serial port.'')),
      cancelled_early = False,
      cancelled_late = False\<rparr>"

text \<open>A browser with an empty cookie jar, and one that remembers \<open>reader_A\<close>.\<close>

definition fresh :: serial_state where
  "fresh = initial_state (Some None)"

definition remembering_A :: serial_state where
  "remembering_A =
     initial_state
       (setSerialFilterCookie \<lparr>usbVendorId = 9025, usbProductId = 67\<rparr> (Some None))"


section \<open>Properties\<close>

subsection \<open>The line framer\<close>

lemma LF_neq_CR [simp]: "LF \<noteq> CR" "CR \<noteq> LF"
  by (simp_all add: LF_def CR_def)

lemma split_newline_nonempty: "split_newline s \<noteq> []"
  by (induction s rule: split_newline.induct) (auto split: list.splits)

lemma split_newline_single: "split_newline s = [l] \<Longrightarrow> l = s"
  by (induction s arbitrary: l rule: split_newline.induct)
     (auto split: list.splits if_splits simp: split_newline_nonempty)

text \<open>
  Splitting a text in two and splitting the second part again, after the last segment of
  the first, gives the segments of the whole: a separator is never lost at the cut, since a
  CR at the end of the first part stays in its last segment.
\<close>

lemma split_newline_append:
  "split_newline (a @ b) = butlast (split_newline a) @ split_newline (last (split_newline a) @ b)"
proof (induction a rule: split_newline.induct)
  case 1
  then show ?case by simp
next
  case (2 c cs)
  show ?case
  proof (cases "c = CR \<and> cs \<noteq> [] \<and> hd cs = LF")
    case True
    then obtain ds where cs: "cs = LF # ds" and c: "c = CR" by (cases cs) auto
    have "split_newline (ds @ b) =
        butlast (split_newline ds) @ split_newline (last (split_newline ds) @ b)"
      using 2(1) True cs by simp
    then show ?thesis using cs c by (simp add: split_newline_nonempty)
  next
    case nocrlf: False
    show ?thesis
    proof (cases "c = LF")
      case True
      have "split_newline (cs @ b) =
          butlast (split_newline cs) @ split_newline (last (split_newline cs) @ b)"
        using 2(2) nocrlf True by simp
      then show ?thesis using nocrlf True by (simp add: split_newline_nonempty)
    next
      case nolf: False
      show ?thesis
      proof (cases cs)
        case Nil
        with nocrlf nolf show ?thesis by simp
      next
        case (Cons d ds)
        obtain l ls where sp: "split_newline cs = l # ls"
          using split_newline_nonempty [of cs] by (cases "split_newline cs") auto
        have ih: "split_newline (cs @ b) =
            butlast (split_newline cs) @ split_newline (last (split_newline cs) @ b)"
          using 2(3) nocrlf nolf by simp
        have ne: "cs \<noteq> []" using Cons by simp
        have ord: "\<not> (c = CR \<and> cs @ b \<noteq> [] \<and> hd (cs @ b) = LF)"
          using nocrlf ne by simp
        have lhs: "split_newline ((c # cs) @ b) =
            (c # hd (split_newline (cs @ b))) # tl (split_newline (cs @ b))"
          using ord nolf split_newline_nonempty [of "cs @ b"]
          by (cases "split_newline (cs @ b)") simp_all
        have rhs: "split_newline (c # cs) = (c # l) # ls"
          using nocrlf nolf sp by simp
        show ?thesis
        proof (cases ls)
          case Nil
          with sp have lcs: "l = cs" using split_newline_single by simp
          have "split_newline ((c # l) @ b) =
            (c # hd (split_newline (cs @ b))) # tl (split_newline (cs @ b))"
            using lhs lcs by simp
          then show ?thesis unfolding lhs rhs Nil by simp
        next
          case (Cons m ms)
          have "split_newline (cs @ b) = l # (butlast ls @ split_newline (last ls @ b))"
            unfolding ih sp using Cons by simp
          then show ?thesis unfolding lhs rhs using Cons by simp
        qed
      qed
    qed
  qed
qed

lemma split_newline_last:
  "split_newline (last (split_newline s)) = [last (split_newline s)]"
proof -
  have "butlast (split_newline s) @ [last (split_newline s)] = split_newline s"
    using split_newline_nonempty by simp
  also have "\<dots> = butlast (split_newline s) @ split_newline (last (split_newline s))"
    using split_newline_append [of s "[]"] by simp
  finally show ?thesis by simp
qed

lemma feed_eq:
  "feed readBuffer value =
     (filter (\<lambda>t. t \<noteq> []) (map trim (butlast (split_newline (readBuffer @ TextDecoder_decode value)))),
      last (split_newline (readBuffer @ TextDecoder_decode value)))"
  by (simp add: feed_def pop_def split_newline_nonempty Let_def)

lemma TextDecoder_decode_append:
  "TextDecoder_decode (a @ b) = TextDecoder_decode a @ TextDecoder_decode b"
  by (simp add: TextDecoder_decode_def)

lemma feed_chunks_eq:
  "split_newline readBuffer = [readBuffer] \<Longrightarrow>
   feed_chunks readBuffer chunks =
     (filter (\<lambda>t. t \<noteq> [])
        (map trim (butlast (split_newline (readBuffer @ TextDecoder_decode (concat chunks))))),
      last (split_newline (readBuffer @ TextDecoder_decode (concat chunks))))"
proof (induction chunks arbitrary: readBuffer)
  case Nil
  then show ?case by (simp add: TextDecoder_decode_def)
next
  case (Cons v rest)
  let ?r = "last (split_newline (readBuffer @ TextDecoder_decode v))"
  have r: "split_newline ?r = [?r]" by (rule split_newline_last)
  have sp: "split_newline (readBuffer @ TextDecoder_decode (concat (v # rest))) =
      butlast (split_newline (readBuffer @ TextDecoder_decode v)) @
      split_newline (?r @ TextDecoder_decode (concat rest))"
    using split_newline_append [of "readBuffer @ TextDecoder_decode v" "TextDecoder_decode (concat rest)"]
    by (simp add: TextDecoder_decode_append)
  show ?case
    unfolding sp
    by (simp add: feed_eq Cons.IH [OF r] butlast_append split_newline_nonempty del: split_newline.simps)
qed

text \<open>
  Claim C2. For every ASCII byte stream and every way of cutting it into chunks, feeding
  the chunks one by one to the line framer gives the same complete lines, in the same
  order, as feeding the whole stream as one chunk (and leaves the same remainder in
  \<^verbatim>\<open>readBuffer\<close>).
\<close>

theorem chunk_boundary_independence:
  assumes "list_all is_ascii stream" and "concat chunks = stream"
  shows "feed_chunks [] chunks = feed_chunks [] [stream]"
proof -
  have e: "split_newline [] = [[]]" by simp
  show ?thesis
    using feed_chunks_eq [OF e, of chunks] feed_chunks_eq [OF e, of "[stream]"] assms(2)
    by simp
qed

theorem chunk_boundary_independence_witness:
  "list_all is_ascii [0x41, 0x0D, 0x0A, 0x42, 0x0A, 0x0A, 0x20, 0x43] \<and>
   concat [[0x41, 0x0D], [0x0A, 0x42, 0x0A, 0x0A, 0x20, 0x43]] = [0x41, 0x0D, 0x0A, 0x42, 0x0A, 0x0A, 0x20, 0x43 :: byte] \<and>
   feed_chunks [] [[0x41, 0x0D], [0x0A, 0x42, 0x0A, 0x0A, 0x20, 0x43]] = ([''A'', ''B''], '' C'')  \<and>
   feed_chunks [] [[0x41, 0x0D, 0x0A, 0x42, 0x0A, 0x0A, 0x20, 0x43]] = ([''A'', ''B''], '' C'')"
proof -
  have a: "list_all is_ascii [0x41, 0x0D, 0x0A, 0x42, 0x0A, 0x0A, 0x20, 0x43]"
    by (simp add: is_ascii_def)
  have c: "concat [[0x41, 0x0D], [0x0A, 0x42, 0x0A, 0x0A, 0x20, 0x43]] = [0x41, 0x0D, 0x0A, 0x42, 0x0A, 0x0A, 0x20, 0x43 :: byte]"
    by simp
  have v: "feed_chunks [] [[0x41, 0x0D, 0x0A, 0x42, 0x0A, 0x0A, 0x20, 0x43]] = ([''A'', ''B''], '' C'')"
    by code_simp
  show ?thesis
    using chunk_boundary_independence [OF a c] a c v by simp
qed

subsection \<open>The tag-ID extractor\<close>

text \<open>
  Claim C1. The reference table of the extractor, evaluated on the provider's read loop
  with a consumer \<open>k\<close> registered: the line \<^verbatim>\<open>User ID: ""\<close> calls no consumer there, where
  the table asks for a call with the empty string; the hook \<^verbatim>\<open>useSerial\<close> makes that call.
  The other four lines of the table come out as the table says.
\<close>

theorem provider_suppresses_empty_user_id:
  \<open>on_line (Some k) ''User ID: ""'' = [] \<and>
   useSerial_on_line k ''User ID: ""'' = [(k, [])] \<and>
   on_line (Some k) ''User ID: "AB12"'' = [(k, ''AB12'')] \<and>
   on_line (Some k) ''OK|READ|AB12'' = [(k, ''AB12'')] \<and>
   on_line (Some k) ''OK|READ|'' = [] \<and>
   on_line (Some k) ''garbage line'' = []\<close>
  by code_simp

text \<open>
  The same for every line: in the provider a menu-mode line whose capture trims to the
  empty string calls no consumer, and a line of neither shape calls none.
\<close>

lemma empty_menu_capture:
  assumes "match_USER_ID_REGEX t = Some g" and "trim g = []"
  shows "on_line onTagRead t = []" and "useSerial_on_line k t = [(k, [])]"
  using assms by (simp_all add: on_line_def tag_id_def useSerial_on_line_def)

lemma neither_shape:
  assumes "match_USER_ID_REGEX t = None" and "match_OK_READ_REGEX t = None"
  shows "on_line onTagRead t = []"
  using assms by (simp add: on_line_def tag_id_def)

subsection \<open>The persisted device filter store\<close>

lemma getSerialFilterFromCookie_set:
  "getSerialFilterFromCookie (setSerialFilterCookie flt (Some jar)) = Some flt"
  by (simp add: getSerialFilterFromCookie_def setSerialFilterCookie_def member_is_number_def
      number_member_def)

lemma getSerialFilterFromCookie_clear:
  "getSerialFilterFromCookie (clearSerialFilterCookie doc) = None"
  by (simp add: getSerialFilterFromCookie_def clearSerialFilterCookie_def split: option.splits)

text \<open>
  Claim C9. \<^verbatim>\<open>setSerialFilterCookie\<close> overwrites whatever the jar held, and the filter it
  wrote is the one read back; \<^verbatim>\<open>clearSerialFilterCookie\<close> is idempotent and leaves nothing to
  read; \<^verbatim>\<open>getSerialFilterFromCookie\<close> returns null, and never throws, when there is no
  document, no cookie, a cookie that does not decode, one that is not JSON, or one whose
  value lacks a numeric \<^verbatim>\<open>usbVendorId\<close> or \<^verbatim>\<open>usbProductId\<close>.
\<close>

theorem filter_store:
  "setSerialFilterCookie flt (Some jar) = setSerialFilterCookie flt (Some jar') \<and>
   getSerialFilterFromCookie (setSerialFilterCookie flt (Some jar)) = Some flt \<and>
   clearSerialFilterCookie (clearSerialFilterCookie doc) = clearSerialFilterCookie doc \<and>
   getSerialFilterFromCookie (clearSerialFilterCookie doc) = None \<and>
   getSerialFilterFromCookie None = None \<and>
   getSerialFilterFromCookie (Some None) = None \<and>
   getSerialFilterFromCookie (Some (Some Throws_URIError)) = None \<and>
   getSerialFilterFromCookie (Some (Some Throws_SyntaxError)) = None \<and>
   (\<not> (member_is_number parsed ''usbVendorId'' \<and> member_is_number parsed ''usbProductId'') \<longrightarrow>
      getSerialFilterFromCookie (Some (Some (Parses_to parsed))) = None)"
proof -
  have "setSerialFilterCookie flt (Some jar) = setSerialFilterCookie flt (Some jar')"
    by (simp add: setSerialFilterCookie_def)
  moreover have "clearSerialFilterCookie (clearSerialFilterCookie doc) = clearSerialFilterCookie doc"
    by (simp add: clearSerialFilterCookie_def split: option.splits)
  moreover have "\<not> (member_is_number parsed ''usbVendorId'' \<and> member_is_number parsed ''usbProductId'') \<longrightarrow>
      getSerialFilterFromCookie (Some (Some (Parses_to parsed))) = None"
    by (simp add: getSerialFilterFromCookie_def)
  ultimately show ?thesis
    by (simp add: getSerialFilterFromCookie_set getSerialFilterFromCookie_clear)
       (simp add: getSerialFilterFromCookie_def)
qed

theorem filter_store_witness:
  "\<not> (member_is_number (JObject [(''usbVendorId'', JString ''9025''), (''usbProductId'', JNumber 67)])
        ''usbVendorId'' \<and>
      member_is_number (JObject [(''usbVendorId'', JString ''9025''), (''usbProductId'', JNumber 67)])
        ''usbProductId'') \<and>
   getSerialFilterFromCookie
     (Some (Some (Parses_to (JObject [(''usbVendorId'', JString ''9025''), (''usbProductId'', JNumber 67)])))) = None \<and>
   getSerialFilterFromCookie
     (setSerialFilterCookie \<lparr>usbVendorId = 6790, usbProductId = 29987\<rparr> (document remembering_A)) =
     Some \<lparr>usbVendorId = 6790, usbProductId = 29987\<rparr>"
proof -
  let ?j = "JObject [(''usbVendorId'', JString ''9025''), (''usbProductId'', JNumber 67)]"
  have m: "\<not> (member_is_number ?j ''usbVendorId'' \<and> member_is_number ?j ''usbProductId'')"
    by (simp add: member_is_number_def)
  have d: "document remembering_A =
    Some (Some (Parses_to (JObject [(''usbVendorId'', JNumber 9025), (''usbProductId'', JNumber 67)])))"
    by (simp add: remembering_A_def initial_state_def setSerialFilterCookie_def)
  show ?thesis
    using filter_store [of "\<lparr>usbVendorId = 6790, usbProductId = 29987\<rparr>"
        "Some (Parses_to (JObject [(''usbVendorId'', JNumber 9025), (''usbProductId'', JNumber 67)]))"
        None None ?j] m d
    by (simp add: getSerialFilterFromCookie_set)
qed

subsection \<open>\<^verbatim>\<open>connect()\<close>\<close>

lemma openPortAndRead_fields:
  "portRef (openPortAndRead port st) = Some port"
  "open_ports (openPortAndRead port st) = open_ports st"
  by (simp_all add: openPortAndRead_def Let_def split: option.splits)

lemma connect_succeeds:
  assumes "nav_serial env"
    and "requestPort env (getSerialFilterFromCookie (document st)) = Resolved port"
    and "port_open env port = Resolved ()"
  shows "connect env st =
    (Resolved (),
     openPortAndRead port
       (st\<lparr>error := None, abortRef := False, open_ports := insert (port_id port) (open_ports st)\<rparr>))"
  using assms by (simp add: connect_def Let_def)

lemma connect_fails:
  assumes "nav_serial env"
    and "requestPort env (getSerialFilterFromCookie (document st)) = Rejected e \<or>
         (requestPort env (getSerialFilterFromCookie (document st)) = Resolved port \<and>
          port_open env port = Rejected e)"
  shows "connect env st = (Resolved (), connect_catch e (st\<lparr>error := None, abortRef := False\<rparr>))"
  using assms by (auto simp add: connect_def Let_def)

text \<open>
  A port that the chooser offered for the stored filter reports the stored identity; so
  where the opened port reports no identity, none was stored, and after
  \<^verbatim>\<open>openPortAndRead\<close> the identity read back is that of the port.
\<close>

lemma offered_identity:
  assumes "offered (getSerialFilterFromCookie doc) port"
    and "info_ids (getInfo port) = None"
  shows "getSerialFilterFromCookie doc = None"
proof (cases "getSerialFilterFromCookie doc")
  case None
  then show ?thesis .
next
  case (Some savedFilter)
  with assms(1) have "port_matches savedFilter port" by (simp add: offered_def)
  then have "info_ids (getInfo port) \<noteq> None"
    by (cases "getInfo port") (simp_all add: port_matches_def info_ids_def)
  with assms(2) show ?thesis by simp
qed

lemma persisted_after_open:
  assumes "offered (getSerialFilterFromCookie (document st)) port" and "document st = Some jar"
  shows "getSerialFilterFromCookie (document (openPortAndRead port st)) = port_identity port"
proof (cases "info_ids (getInfo port)")
  case None
  then have "document (openPortAndRead port st) = document st"
    by (simp add: openPortAndRead_def Let_def)
  then show ?thesis using offered_identity [OF assms(1) None] None
    by (simp add: port_identity_def)
next
  case (Some vp)
  obtain v p where vp: "vp = (v, p)" by (cases vp)
  have "document (openPortAndRead port st) =
      setSerialFilterCookie \<lparr>usbVendorId = v, usbProductId = p\<rparr> (Some jar)"
    using Some vp assms(2) by (simp add: openPortAndRead_def Let_def)
  then show ?thesis using Some vp
    by (simp add: port_identity_def getSerialFilterFromCookie_set)
qed

text \<open>
  Claim C4. For every call of \<^verbatim>\<open>connect()\<close> in a browser in which the user selects a port
  that the chooser offers for the filter it was passed, and the open succeeds: the promise
  resolves, \<^verbatim>\<open>isConnected\<close> is true (the state is Connected, on a supported platform with
  no reconnect pending), \<^verbatim>\<open>error\<close> is null, the port is held and open, its read loop is
  started, and the stored identity read back is the vendor/product identity of the port
  (none where the port reports none).
\<close>

theorem connect_success:
  assumes "nav_serial env"
    and "requestPort env (getSerialFilterFromCookie (document st)) = Resolved port"
    and "offered (getSerialFilterFromCookie (document st)) port"
    and "port_open env port = Resolved ()"
    and "document st = Some jar"
  shows "fst (connect env st) = Resolved () \<and>
         isConnected (snd (connect env st)) \<and>
         (isSupported st \<and> \<not> isReconnecting st \<longrightarrow>
            connection_state (snd (connect env st)) = Connected) \<and>
         error (snd (connect env st)) = None \<and>
         readLoops (snd (connect env st)) = readLoops st @ [port_id port] \<and>
         portRef (snd (connect env st)) = Some port \<and>
         port_id port \<in> open_ports (snd (connect env st)) \<and>
         getSerialFilterFromCookie (document (snd (connect env st))) = port_identity port"
proof -
  let ?st1 = "st\<lparr>error := None, abortRef := False,
      open_ports := insert (port_id port) (open_ports st)\<rparr>"
  have c: "connect env st = (Resolved (), openPortAndRead port ?st1)"
    using assms(1,2,4) by (rule connect_succeeds)
  have o: "offered (getSerialFilterFromCookie (document ?st1)) port" using assms(3) by simp
  have d: "document ?st1 = Some jar" using assms(5) by simp
  have i: "getSerialFilterFromCookie (document (openPortAndRead port ?st1)) = port_identity port"
    using o d by (rule persisted_after_open)
  have f: "isConnected (openPortAndRead port ?st1)"
    "isSupported (openPortAndRead port ?st1) = isSupported st"
    "isReconnecting (openPortAndRead port ?st1) = isReconnecting st"
    "error (openPortAndRead port ?st1) = None"
    "readLoops (openPortAndRead port ?st1) = readLoops st @ [port_id port]"
    by (simp_all add: openPortAndRead_def Let_def split: option.splits)
  show ?thesis
    unfolding c using i f by (simp add: openPortAndRead_fields connection_state_def)
qed

theorem connect_success_witness:
  "nav_serial (selecting reader_A) \<and>
   requestPort (selecting reader_A) (getSerialFilterFromCookie (document (probe True remembering_A))) =
     Resolved reader_A \<and>
   offered (getSerialFilterFromCookie (document (probe True remembering_A))) reader_A \<and>
   port_open (selecting reader_A) reader_A = Resolved () \<and>
   connection_state (snd (connect (selecting reader_A) (probe True remembering_A))) = Connected \<and>
   error (snd (connect (selecting reader_A) (probe True remembering_A))) = None \<and>
   readLoops (snd (connect (selecting reader_A) (probe True remembering_A))) = [1] \<and>
   getSerialFilterFromCookie (document (snd (connect (selecting reader_A) (probe True remembering_A)))) =
     Some \<lparr>usbVendorId = 9025, usbProductId = 67\<rparr> \<and>
   offered (getSerialFilterFromCookie (document fresh)) plain_port \<and>
   isConnected (snd (connect (selecting plain_port) fresh)) \<and>
   port_identity plain_port = None \<and>
   getSerialFilterFromCookie (document (snd (connect (selecting plain_port) fresh))) = None \<and>
   getSerialFilterFromCookie (document (snd (connect (selecting reader_B) fresh))) =
     Some \<lparr>usbVendorId = 6790, usbProductId = 29987\<rparr>"
proof -
  let ?st = "probe True remembering_A"
  have a: "nav_serial (selecting port)" for port by (simp add: selecting_def)
  have b: "requestPort (selecting reader_A) (getSerialFilterFromCookie (document ?st)) = Resolved reader_A"
    by code_simp
  have o: "offered (getSerialFilterFromCookie (document ?st)) reader_A" by code_simp
  have c: "port_open (selecting port) port = Resolved ()" for port by (simp add: selecting_def)
  have d: "document ?st =
    Some (Some (Parses_to (JObject [(''usbVendorId'', JNumber 9025), (''usbProductId'', JNumber 67)])))"
    by (simp add: probe_def remembering_A_def initial_state_def setSerialFilterCookie_def)
  have s: "isSupported ?st" "\<not> isReconnecting ?st" "readLoops ?st = []"
    by (simp_all add: probe_def remembering_A_def initial_state_def)
  have i: "port_identity reader_A = Some \<lparr>usbVendorId = 9025, usbProductId = 67\<rparr>"
    "port_identity reader_B = Some \<lparr>usbVendorId = 6790, usbProductId = 29987\<rparr>"
    "port_identity plain_port = None"
    by (simp_all add: port_identity_def info_ids_def reader_A_def reader_B_def plain_port_def)
  have b2: "requestPort (selecting plain_port) (getSerialFilterFromCookie (document fresh)) =
      Resolved plain_port"
    by code_simp
  have o2: "offered (getSerialFilterFromCookie (document fresh)) plain_port" by code_simp
  have b3: "requestPort (selecting reader_B) (getSerialFilterFromCookie (document fresh)) =
      Resolved reader_B"
    by code_simp
  have o3: "offered (getSerialFilterFromCookie (document fresh)) reader_B" by code_simp
  have d2: "document fresh = Some None" by (simp add: fresh_def initial_state_def)
  show ?thesis
    using connect_success [OF a b o c d] connect_success [OF a b2 o2 c d2]
      connect_success [OF a b3 o3 c d2] a b o c s i o2
    by (simp add: reader_A_def)
qed

text \<open>
  Claim C5. For every call of \<^verbatim>\<open>connect()\<close>, on a supported platform and with no
  reconnect pending, in which the selection is rejected or the selected port does not
  open: the promise of \<^verbatim>\<open>connect()\<close> resolves (the failure is caught), no stored
  identity is left, \<^verbatim>\<open>error\<close> holds the message of the failure (or
  \<^verbatim>\<open>Connection failed\<close>), the state is Disconnected, and no port has been opened.
\<close>

theorem connect_failure:
  assumes "nav_serial env"
    and "requestPort env (getSerialFilterFromCookie (document st)) = Rejected e \<or>
         (requestPort env (getSerialFilterFromCookie (document st)) = Resolved port \<and>
          port_open env port = Rejected e)"
    and "isSupported st" and "\<not> isReconnecting st"
  shows "fst (connect env st) = Resolved () \<and>
         getSerialFilterFromCookie (document (snd (connect env st))) = None \<and>
         error (snd (connect env st)) = Some (message_or e ''Connection failed'') \<and>
         \<not> isConnected (snd (connect env st)) \<and>
         connection_state (snd (connect env st)) = Disconnected \<and>
         open_ports (snd (connect env st)) = open_ports st"
  unfolding connect_fails [OF assms(1,2)]
  using assms(3,4)
  by (simp add: connect_catch_def getSerialFilterFromCookie_clear connection_state_def)

theorem connect_failure_witness:
  "nav_serial cancelling \<and>
   requestPort cancelling (getSerialFilterFromCookie (document (probe True remembering_A))) =
     Rejected (Error ''No port selected by the user.'') \<and>
   isSupported (probe True remembering_A) \<and>
   \<not> isReconnecting (probe True remembering_A) \<and>
   fst (connect cancelling (probe True remembering_A)) = Resolved () \<and>
   getSerialFilterFromCookie (document (snd (connect cancelling (probe True remembering_A)))) = None \<and>
   error (snd (connect cancelling (probe True remembering_A))) = Some ''No port selected by the user.'' \<and>
   connection_state (snd (connect cancelling (probe True remembering_A))) = Disconnected \<and>
   nav_serial (not_opening reader_A) \<and>
   requestPort (not_opening reader_A) (getSerialFilterFromCookie (document (probe True remembering_A))) =
     Resolved reader_A \<and>
   port_open (not_opening reader_A) reader_A = Rejected (Error ''Failed to open serial port.'') \<and>
   getSerialFilterFromCookie (document (snd (connect (not_opening reader_A) (probe True remembering_A)))) = None \<and>
   error (snd (connect (not_opening reader_A) (probe True remembering_A))) = Some ''Failed to open serial port.'' \<and>
   connection_state (snd (connect (not_opening reader_A) (probe True remembering_A))) = Disconnected"
proof -
  let ?st = "probe True remembering_A"
  have a: "nav_serial cancelling" by (simp add: cancelling_def)
  have b: "requestPort cancelling (getSerialFilterFromCookie (document ?st)) =
     Rejected (Error ''No port selected by the user.'')"
    by (simp add: cancelling_def)
  have a': "nav_serial (not_opening reader_A)" by (simp add: not_opening_def)
  have b': "requestPort (not_opening reader_A) (getSerialFilterFromCookie (document ?st)) =
     Resolved reader_A"
    by code_simp
  have c': "port_open (not_opening reader_A) reader_A = Rejected (Error ''Failed to open serial port.'')"
    by (simp add: not_opening_def)
  have s: "isSupported ?st" and r: "\<not> isReconnecting ?st"
    by (simp_all add: probe_def remembering_A_def initial_state_def)
  have 1: "requestPort cancelling (getSerialFilterFromCookie (document ?st)) =
        Rejected (Error ''No port selected by the user.'') \<or>
      (requestPort cancelling (getSerialFilterFromCookie (document ?st)) = Resolved reader_A \<and>
       port_open cancelling reader_A = Rejected (Error ''No port selected by the user.''))"
    using b by simp
  have 2: "requestPort (not_opening reader_A) (getSerialFilterFromCookie (document ?st)) =
        Rejected (Error ''Failed to open serial port.'') \<or>
      (requestPort (not_opening reader_A) (getSerialFilterFromCookie (document ?st)) =
         Resolved reader_A \<and>
       port_open (not_opening reader_A) reader_A = Rejected (Error ''Failed to open serial port.''))"
    using b' c' by simp
  show ?thesis
    using connect_failure [OF a 1 s r] connect_failure [OF a' 2 s r] a b a' b' c' s r
    by (simp add: message_or_def)
qed

subsection \<open>The reconnect effect\<close>

text \<open>
  Claim C6. The reconnect effect on a provider that stays mounted, with an identity
  stored and \<^verbatim>\<open>getPorts()\<close> resolved, from a state that is not connected and has no error:
  with no matching port it only resets \<^verbatim>\<open>isReconnecting\<close> (the stored identity stays,
  no error is set); when the first matching port does not open, the stored identity is
  cleared, and the state is neither connected nor reconnecting, with no error; when it
  opens, the state is connected, the port is held and its read loop is started.
\<close>

theorem reconnect_outcomes:
  assumes "r_nav_serial env"
    and "getSerialFilterFromCookie (document st) = Some savedFilter"
    and "\<not> cancelled_early env" and "\<not> cancelled_late env"
    and "getPorts env = Resolved ports"
    and "\<not> isConnected st" and "error st = None"
  shows "(find (port_matches savedFilter) ports = None \<longrightarrow>
            reconnect env st = st\<lparr>isReconnecting := False\<rparr>) \<and>
         (find (port_matches savedFilter) ports = Some port \<and> r_port_open env port = Rejected e \<longrightarrow>
            getSerialFilterFromCookie (document (reconnect env st)) = None \<and>
            \<not> isConnected (reconnect env st) \<and>
            \<not> isReconnecting (reconnect env st) \<and>
            error (reconnect env st) = None \<and>
            open_ports (reconnect env st) = open_ports st) \<and>
         (find (port_matches savedFilter) ports = Some port \<and> r_port_open env port = Resolved () \<longrightarrow>
            isConnected (reconnect env st) \<and>
            \<not> isReconnecting (reconnect env st) \<and>
            error (reconnect env st) = None \<and>
            portRef (reconnect env st) = Some port \<and>
            readLoops (reconnect env st) = readLoops st @ [port_id port])"
proof (intro conjI impI)
  assume "find (port_matches savedFilter) ports = None"
  then show "reconnect env st = st\<lparr>isReconnecting := False\<rparr>"
    using assms by (simp add: reconnect_def)
next
  assume a: "find (port_matches savedFilter) ports = Some port \<and> r_port_open env port = Rejected e"
  then have r: "reconnect env st =
      st\<lparr>isReconnecting := True, document := clearSerialFilterCookie (document st),
         isReconnecting := False\<rparr>"
    using assms by (simp add: reconnect_def)
  show "getSerialFilterFromCookie (document (reconnect env st)) = None"
    unfolding r by (simp add: getSerialFilterFromCookie_clear)
  show "\<not> isConnected (reconnect env st)" unfolding r using assms(6) by simp
  show "\<not> isReconnecting (reconnect env st)" unfolding r by simp
  show "error (reconnect env st) = None" unfolding r using assms(7) by simp
  show "open_ports (reconnect env st) = open_ports st" unfolding r by simp
next
  assume a: "find (port_matches savedFilter) ports = Some port \<and> r_port_open env port = Resolved ()"
  then have r: "reconnect env st =
      (openPortAndRead port
         (st\<lparr>isReconnecting := True, open_ports := insert (port_id port) (open_ports st),
             abortRef := False\<rparr>))\<lparr>isReconnecting := False\<rparr>"
    using assms by (simp add: reconnect_def)
  show "isConnected (reconnect env st)"
    unfolding r by (simp add: openPortAndRead_def Let_def split: option.splits)
  show "\<not> isReconnecting (reconnect env st)" unfolding r by simp
  show "error (reconnect env st) = None"
    unfolding r by (simp add: openPortAndRead_def Let_def split: option.splits)
  show "portRef (reconnect env st) = Some port"
    unfolding r by (simp add: openPortAndRead_def Let_def split: option.splits)
  show "readLoops (reconnect env st) = readLoops st @ [port_id port]"
    unfolding r by (simp add: openPortAndRead_def Let_def split: option.splits)
qed

theorem reconnect_outcomes_witness:
  "r_nav_serial (resuming [reader_B] True) \<and>
   getSerialFilterFromCookie (document remembering_A) = Some \<lparr>usbVendorId = 9025, usbProductId = 67\<rparr> \<and>
   find (port_matches \<lparr>usbVendorId = 9025, usbProductId = 67\<rparr>) [reader_B] = None \<and>
   reconnect (resuming [reader_B] True) remembering_A = remembering_A \<and>
   find (port_matches \<lparr>usbVendorId = 9025, usbProductId = 67\<rparr>) [reader_B, reader_A] = Some reader_A \<and>
   getSerialFilterFromCookie (document (reconnect (resuming [reader_B, reader_A] False) remembering_A)) = None \<and>
   \<not> isConnected (reconnect (resuming [reader_B, reader_A] False) remembering_A) \<and>
   error (reconnect (resuming [reader_B, reader_A] False) remembering_A) = None \<and>
   isConnected (reconnect (resuming [reader_B, reader_A] True) remembering_A) \<and>
   \<not> isReconnecting (reconnect (resuming [reader_B, reader_A] True) remembering_A) \<and>
   readLoops (reconnect (resuming [reader_B, reader_A] True) remembering_A) = [1]"
proof -
  let ?f = "\<lparr>usbVendorId = 9025, usbProductId = 67\<rparr>"
  have n: "r_nav_serial (resuming ports opens)" for ports opens by (simp add: resuming_def)
  have f: "getSerialFilterFromCookie (document remembering_A) = Some ?f" by code_simp
  have ce: "\<not> cancelled_early (resuming ports opens)" for ports opens by (simp add: resuming_def)
  have cl: "\<not> cancelled_late (resuming ports opens)" for ports opens by (simp add: resuming_def)
  have g: "getPorts (resuming ports opens) = Resolved ports" for ports opens by (simp add: resuming_def)
  have c: "\<not> isConnected remembering_A" by (simp add: remembering_A_def initial_state_def)
  have e: "error remembering_A = None" by (simp add: remembering_A_def initial_state_def)
  have m1: "find (port_matches ?f) [reader_B] = None" by code_simp
  have m2: "find (port_matches ?f) [reader_B, reader_A] = Some reader_A" by code_simp
  have o1: "r_port_open (resuming [reader_B, reader_A] False) reader_A =
      Rejected (Error ''Failed to open serial port.'')"
    by (simp add: resuming_def)
  have o2: "r_port_open (resuming [reader_B, reader_A] True) reader_A = Resolved ()"
    by (simp add: resuming_def)
  have s: "remembering_A\<lparr>isReconnecting := False\<rparr> = remembering_A"
    by (simp add: remembering_A_def initial_state_def)
  have r: "readLoops remembering_A = []" by (simp add: remembering_A_def initial_state_def)
  note t1 = reconnect_outcomes [OF n f ce cl g c e, of "[reader_B]" True reader_A Not_an_Error]
  note t2 = reconnect_outcomes [OF n f ce cl g c e, of "[reader_B, reader_A]" False reader_A
      "Error ''Failed to open serial port.''"]
  note t3 = reconnect_outcomes [OF n f ce cl g c e, of "[reader_B, reader_A]" True reader_A Not_an_Error]
  show ?thesis
    using t1 t2 t3 n f m1 m2 o1 o2 s r by (simp add: reader_A_def)
qed

subsection \<open>\<^verbatim>\<open>disconnect()\<close> and \<^verbatim>\<open>send()\<close>\<close>

lemma disconnect_eq:
  "disconnect env st =
     (Resolved (),
      st\<lparr>abortRef := True, readerRef := None, writerRef := None, portRef := None,
         open_ports := (case portRef st of
                          None \<Rightarrow> open_ports st
                        | Some port \<Rightarrow>
                            (case port_close env of
                               Resolved u \<Rightarrow> open_ports st - {port_id port}
                             | Rejected e \<Rightarrow> open_ports st)),
         isConnected := False, error := None\<rparr>)"
  by (cases "readerRef st"; cases "writerRef st"; cases "portRef st"; cases "port_close env";
      cases "reader_cancel env"; cases "writer_close env")
     (simp_all add: disconnect_def)

text \<open>
  Claim C7, as it is written, fails from the state Reconnecting: \<^verbatim>\<open>disconnect()\<close> does not
  touch \<^verbatim>\<open>isReconnecting\<close> and does not cancel the reconnect effect. Called while the
  effect waits for \<^verbatim>\<open>port.open\<close>, it finds nothing to close and leaves the state
  Reconnecting; the open then resolves and the state is Connected.
\<close>

theorem disconnect_leaves_reconnecting:
  "connection_state (core (run [Mount_effect True,
       GetPorts_settles \<lparr>usbVendorId = 9025, usbProductId = 67\<rparr> (Resolved [reader_A])]
       (idle (probe True remembering_A)))) = Reconnecting \<and>
   connection_state (snd (disconnect closing (core (run [Mount_effect True,
       GetPorts_settles \<lparr>usbVendorId = 9025, usbProductId = 67\<rparr> (Resolved [reader_A])]
       (idle (probe True remembering_A)))))) = Reconnecting \<and>
   connection_state (core (run [Mount_effect True,
       GetPorts_settles \<lparr>usbVendorId = 9025, usbProductId = 67\<rparr> (Resolved [reader_A]),
       Call_disconnect]
       (idle (probe True remembering_A)))) = Reconnecting \<and>
   pending (run [Mount_effect True,
       GetPorts_settles \<lparr>usbVendorId = 9025, usbProductId = 67\<rparr> (Resolved [reader_A]),
       Call_disconnect]
       (idle (probe True remembering_A))) = [Await_reopen reader_A] \<and>
   connection_state (core (run [Mount_effect True,
       GetPorts_settles \<lparr>usbVendorId = 9025, usbProductId = 67\<rparr> (Resolved [reader_A]),
       Call_disconnect,
       Reopen_settles reader_A (Resolved ())]
       (idle (probe True remembering_A)))) = Connected"
  by code_simp

text \<open>
  Claim C7, amended. From every state and however \<^verbatim>\<open>reader.cancel()\<close>,
  \<^verbatim>\<open>writer.close()\<close> and \<^verbatim>\<open>port.close()\<close> settle, \<^verbatim>\<open>disconnect()\<close> resolves, sets the abort
  flag, drops the reader, the writer and the port, and leaves \<^verbatim>\<open>isConnected\<close> false and
  \<^verbatim>\<open>error\<close> null; a port whose \<^verbatim>\<open>close()\<close> resolved is open no more. \<^verbatim>\<open>isReconnecting\<close>
  stays as it was: on a supported platform the state afterwards is Disconnected when no
  reconnect is pending, and Reconnecting when one is. A second \<^verbatim>\<open>disconnect()\<close> changes
  nothing, and a \<^verbatim>\<open>send()\<close> after it resolves and changes nothing.
\<close>

theorem disconnect_idempotent:
  "fst (disconnect env st) = Resolved () \<and>
   abortRef (snd (disconnect env st)) \<and>
   readerRef (snd (disconnect env st)) = None \<and>
   writerRef (snd (disconnect env st)) = None \<and>
   portRef (snd (disconnect env st)) = None \<and>
   \<not> isConnected (snd (disconnect env st)) \<and>
   error (snd (disconnect env st)) = None \<and>
   isReconnecting (snd (disconnect env st)) = isReconnecting st \<and>
   (isSupported st \<and> \<not> isReconnecting st \<longrightarrow>
      connection_state (snd (disconnect env st)) = Disconnected) \<and>
   (isSupported st \<and> isReconnecting st \<longrightarrow>
      connection_state (snd (disconnect env st)) = Reconnecting) \<and>
   (portRef st = Some port \<and> port_close env = Resolved () \<longrightarrow>
      port_id port \<notin> open_ports (snd (disconnect env st))) \<and>
   disconnect env' (snd (disconnect env st)) = (Resolved (), snd (disconnect env st)) \<and>
   send text write_result (snd (disconnect env st)) = (Resolved (), snd (disconnect env st))"
proof -
  have "disconnect env' (snd (disconnect env st)) = (Resolved (), snd (disconnect env st))"
    by (simp add: disconnect_eq)
  moreover have "send text write_result (snd (disconnect env st)) = (Resolved (), snd (disconnect env st))"
    by (simp add: disconnect_eq send_def)
  moreover have "portRef st = Some port \<and> port_close env = Resolved () \<longrightarrow>
      port_id port \<notin> open_ports (snd (disconnect env st))"
    by (simp add: disconnect_eq)
  moreover have "isSupported st \<and> \<not> isReconnecting st \<longrightarrow>
      connection_state (snd (disconnect env st)) = Disconnected"
    by (simp add: disconnect_eq connection_state_def)
  moreover have "isSupported st \<and> isReconnecting st \<longrightarrow>
      connection_state (snd (disconnect env st)) = Reconnecting"
    by (simp add: disconnect_eq connection_state_def)
  ultimately show ?thesis by (simp add: disconnect_eq)
qed

theorem disconnect_idempotent_witness:
  "portRef (snd (connect (selecting reader_A) (probe True fresh))) = Some reader_A \<and>
   port_close closing = Resolved () \<and>
   isSupported (snd (connect (selecting reader_A) (probe True fresh))) \<and>
   \<not> isReconnecting (snd (connect (selecting reader_A) (probe True fresh))) \<and>
   connection_state (snd (connect (selecting reader_A) (probe True fresh))) = Connected \<and>
   connection_state (snd (disconnect closing (snd (connect (selecting reader_A) (probe True fresh))))) =
     Disconnected \<and>
   error (snd (disconnect closing (snd (connect (selecting reader_A) (probe True fresh))))) = None \<and>
   port_id reader_A \<notin>
     open_ports (snd (disconnect closing (snd (connect (selecting reader_A) (probe True fresh))))) \<and>
   disconnect closing_badly (snd (disconnect closing (snd (connect (selecting reader_A) (probe True fresh))))) =
     (Resolved (), snd (disconnect closing (snd (connect (selecting reader_A) (probe True fresh))))) \<and>
   send ''READ'' (Resolved ()) (snd (disconnect closing (snd (connect (selecting reader_A) (probe True fresh))))) =
     (Resolved (), snd (disconnect closing (snd (connect (selecting reader_A) (probe True fresh))))) \<and>
   isSupported (probe True remembering_A\<lparr>isReconnecting := True\<rparr>) \<and>
   isReconnecting (probe True remembering_A\<lparr>isReconnecting := True\<rparr>) \<and>
   connection_state (snd (disconnect closing (probe True remembering_A\<lparr>isReconnecting := True\<rparr>))) =
     Reconnecting"
proof -
  let ?st = "snd (connect (selecting reader_A) (probe True fresh))"
  let ?rc = "probe True remembering_A\<lparr>isReconnecting := True\<rparr>"
  have p: "portRef ?st = Some reader_A" by code_simp
  have c: "port_close closing = Resolved ()" by (simp add: closing_def)
  have s: "isSupported ?st" by code_simp
  have r: "\<not> isReconnecting ?st" by code_simp
  have k: "connection_state ?st = Connected" by code_simp
  have s2: "isSupported ?rc" "isReconnecting ?rc" by (simp_all add: probe_def)
  show ?thesis
    using disconnect_idempotent [of closing ?st reader_A closing_badly "''READ''" "Resolved ()"]
      disconnect_idempotent [of closing ?rc reader_A closing_badly "''READ''" "Resolved ()"]
      p c s r k s2
    by simp
qed

lemma endsWith_LF: "endsWith s [LF] = (s \<noteq> [] \<and> last s = LF)"
proof (cases s rule: rev_cases)
  case Nil
  then show ?thesis by (simp add: endsWith_def)
next
  case (snoc ys y)
  then show ?thesis by (simp add: endsWith_def)
qed

text \<open>
  Claim C8, as it is written, fails: \<^verbatim>\<open>send\<close> looks at the writer only. After a
  \<^verbatim>\<open>connect()\<close> that succeeded and a second one that the user dismissed,
  \<^verbatim>\<open>isConnected\<close> is false and the writer of the first is still held: \<^verbatim>\<open>send("READ")\<close>
  writes \<^verbatim>\<open>READ\<close> and a newline to it, and a rejected write reaches the caller.
\<close>

theorem send_reaches_writer_while_not_connected:
  "\<not> isConnected (snd (connect cancelling (snd (connect (selecting reader_A) fresh)))) \<and>
   written (snd (connect cancelling (snd (connect (selecting reader_A) fresh)))) = [] \<and>
   written (snd (send ''READ'' (Resolved ())
     (snd (connect cancelling (snd (connect (selecting reader_A) fresh)))))) =
     [(1, [0x52, 0x45, 0x41, 0x44, 0x0A])] \<and>
   fst (send ''READ'' (Rejected (Error ''The device has been lost.''))
     (snd (connect cancelling (snd (connect (selecting reader_A) fresh))))) =
     Rejected (Error ''The device has been lost.'')"
  by code_simp

text \<open>
  Claim C8, amended. For every text, \<^verbatim>\<open>send(text)\<close> with no writer held resolves and
  changes nothing; with a writer held it calls \<^verbatim>\<open>write\<close> once, with the encoding of the
  text itself when the text ends in a newline and of the text followed by a newline
  otherwise, and settles as that \<^verbatim>\<open>write\<close> does, whatever \<^verbatim>\<open>isConnected\<close> is.
\<close>

theorem send_terminates_line:
  "(writerRef st = None \<longrightarrow> send text write_result st = (Resolved (), st)) \<and>
   (writerRef st = Some w \<longrightarrow>
      fst (send text write_result st) = write_result \<and>
      written (snd (send text write_result st)) =
        written st @ [(w, TextEncoder_encode (if text \<noteq> [] \<and> last text = LF then text else text @ [LF]))])"
  by (simp add: send_def Let_def endsWith_LF)

theorem send_terminates_line_witness:
  "writerRef fresh = None \<and>
   send ''READ'' (Resolved ()) fresh = (Resolved (), fresh) \<and>
   writerRef (snd (connect (selecting reader_A) fresh)) = Some 1 \<and>
   written (snd (send ''READ'' (Resolved ()) (snd (connect (selecting reader_A) fresh)))) =
     [(1, TextEncoder_encode ''READ\<newline>'')] \<and>
   written (snd (send ''READ\<newline>'' (Resolved ()) (snd (connect (selecting reader_A) fresh)))) =
     [(1, TextEncoder_encode ''READ\<newline>'')]"
proof -
  have a: "writerRef fresh = None" by (simp add: fresh_def initial_state_def)
  have b: "writerRef (snd (connect (selecting reader_A) fresh)) = Some 1" by code_simp
  have w: "written (snd (connect (selecting reader_A) fresh)) = []" by code_simp
  show ?thesis
    using send_terminates_line [of fresh "''READ''" "Resolved ()" 0]
      send_terminates_line [of "snd (connect (selecting reader_A) fresh)" "''READ''" "Resolved ()" 1]
      send_terminates_line [of "snd (connect (selecting reader_A) fresh)" "''READ\<newline>''" "Resolved ()" 1]
      a b w
    by (simp add: LF_def)
qed

subsection \<open>Operations taken apart at their awaits\<close>

text \<open>
  Run with nothing in between, the steps of \<^verbatim>\<open>connect()\<close>, of \<^verbatim>\<open>disconnect()\<close> and of the
  reconnect effect (with its cleanup where \<open>cancelled_early\<close> and \<open>cancelled_late\<close> say)
  give what \<open>connect\<close>, \<open>disconnect\<close> and \<open>reconnect\<close> give. A promise that settles for a
  task that is not pending changes nothing, so the three lists hold the steps of every
  branch.
\<close>

lemma pending_reset:
  "pending s = [] \<Longrightarrow> s\<lparr>pending := [], core := c\<rparr> = s\<lparr>core := c\<rparr>"
  by (cases s) simp

lemma connect_as_steps:
  assumes "pending s = []"
    and "options = getSerialFilterFromCookie (document (core s))"
    and "\<And>p. requestPort env options = Resolved p \<Longrightarrow> p = port"
  shows "run [Call_connect (nav_serial env),
              RequestPort_settles options (requestPort env options),
              Open_settles port (port_open env port)] s =
         s\<lparr>core := snd (connect env (core s))\<rparr>"
proof (cases "nav_serial env")
  case False
  then show ?thesis using assms(1) by (simp add: step_def connect_def)
next
  case True
  let ?st1 = "(core s)\<lparr>error := None, abortRef := False\<rparr>"
  have 1: "step (Call_connect (nav_serial env)) s =
      s\<lparr>core := ?st1, pending := [Await_requestPort options]\<rparr>"
    using True assms(1,2) by (simp add: step_def suspend_def Let_def)
  show ?thesis
  proof (cases "requestPort env options")
    case (Rejected e)
    then show ?thesis using True assms(1,2) 1
      by (simp add: step_def connect_def Let_def pending_reset)
  next
    case (Resolved p)
    then have p: "p = port" by (rule assms(3))
    have 2: "step (RequestPort_settles options (requestPort env options))
        (s\<lparr>core := ?st1, pending := [Await_requestPort options]\<rparr>) =
        s\<lparr>core := ?st1, pending := [Await_open port]\<rparr>"
      using Resolved p by (simp add: step_def suspend_def)
    show ?thesis
    proof (cases "port_open env port")
      case (Rejected e)
      then show ?thesis using True assms(1,2) Resolved p 1 2
        by (simp add: step_def connect_def Let_def pending_reset)
    next
      case r: (Resolved u)
      then show ?thesis using True assms(1,2) Resolved p 1 2
        by (simp add: step_def connect_def Let_def pending_reset)
    qed
  qed
qed

lemma disconnect_as_steps:
  assumes "pending s = []"
    and "\<And>p. portRef (core s) = Some p \<Longrightarrow> p = port"
  shows "run [Call_disconnect,
              Cancel_settles (reader_cancel env),
              Writer_close_settles (writer_close env),
              Port_close_settles port (port_close env)] s =
         s\<lparr>core := snd (disconnect env (core s))\<rparr>"
proof -
  obtain st c where s: "s = \<lparr>core = st, pending = [], cancelled = c\<rparr>"
    using assms(1) by (cases s) simp
  have held: "portRef st = None \<or> portRef st = Some port"
    using assms(2) s by (cases "portRef st") simp_all
  from held show ?thesis
  proof
    assume n: "portRef st = None"
    show ?thesis
      unfolding s using n
      by (cases "readerRef st"; cases "writerRef st"; cases "reader_cancel env";
          cases "writer_close env")
         (simp_all add: step_def suspend_def disconnect_eq disconnect_writer_def
            disconnect_port_def disconnect_end_def)
  next
    assume h: "portRef st = Some port"
    show ?thesis
      unfolding s using h
      by (cases "readerRef st"; cases "writerRef st"; cases "reader_cancel env";
          cases "writer_close env"; cases "port_close env")
         (simp_all add: step_def suspend_def disconnect_eq disconnect_writer_def
            disconnect_port_def disconnect_end_def)
  qed
qed

lemma reconnect_as_steps:
  assumes "pending s = []" and "cancelled s = None"
    and "\<And>f. getSerialFilterFromCookie (document (core s)) = Some f \<Longrightarrow> f = savedFilter"
    and "\<And>ports p. getPorts env = Resolved ports \<Longrightarrow>
           find (port_matches savedFilter) ports = Some p \<Longrightarrow> p = port"
  shows "core (run ([Mount_effect (r_nav_serial env)] @
                    (if cancelled_early env then [Cleanup] else []) @
                    [GetPorts_settles savedFilter (getPorts env)] @
                    (if cancelled_late env then [Cleanup] else []) @
                    [Reopen_settles port (r_port_open env port)]) s) =
         reconnect env (core s)"
proof -
  obtain st where s: "s = \<lparr>core = st, pending = [], cancelled = None\<rparr>"
    using assms(1,2) by (cases s) simp
  have cs: "core s = st" using s by simp
  show ?thesis
  proof (cases "r_nav_serial env")
    case False
    then show ?thesis unfolding s by (simp add: step_def reconnect_def)
  next
    case nav: True
    show ?thesis
    proof (cases "getSerialFilterFromCookie (document st)")
      case None
      then show ?thesis unfolding s using nav by (simp add: step_def reconnect_def)
    next
      case (Some f)
      then have f: "getSerialFilterFromCookie (document st) = Some savedFilter"
        using assms(3) s by simp
      let ?s1 = "\<lparr>core = st\<lparr>isReconnecting := True\<rparr>, pending = [Await_getPorts savedFilter],
          cancelled = Some False\<rparr>"
      have 1: "step (Mount_effect (r_nav_serial env)) s = ?s1"
        unfolding s using nav f by (simp add: step_def suspend_def)
      show ?thesis
      proof (cases "cancelled_early env")
        case True
        then show ?thesis using nav f cs 1
          by (cases "getPorts env") (simp_all add: step_def reconnect_def)
      next
        case early: False
        show ?thesis
        proof (cases "getPorts env")
          case (Rejected e)
          then show ?thesis using nav f cs 1 early
            by (simp add: step_def reconnect_def)
        next
          case (Resolved ports)
          show ?thesis
          proof (cases "find (port_matches savedFilter) ports")
            case None
            then show ?thesis using nav f cs 1 early Resolved
              by (simp add: step_def reconnect_def)
          next
            case (Some p)
            then have m: "find (port_matches savedFilter) ports = Some port"
              using assms(4) Resolved by simp
            let ?s2 = "\<lparr>core = st\<lparr>isReconnecting := True\<rparr>, pending = [Await_reopen port],
                cancelled = Some False\<rparr>"
            have 2: "step (GetPorts_settles savedFilter (getPorts env)) ?s1 = ?s2"
              using Resolved m by (simp add: step_def suspend_def)
            show ?thesis
              using nav f cs 1 2 early Resolved m
              by (cases "cancelled_late env"; cases "r_port_open env port")
                 (simp_all add: step_def reconnect_def Let_def)
          qed
        qed
      qed
    qed
  qed
qed

subsection \<open>At most one open device\<close>


lemma one_device_idle:
  "pending s = [] \<Longrightarrow> one_device s = only_held_open (core s)"
  by (simp add: one_device_def)

lemma one_device_single:
  "pending s = [t] \<Longrightarrow> one_device s = task_one_device t s"
  by (simp add: one_device_def)













text \<open>
  Nor is it enough to ask for a device only while no port is held: \<^verbatim>\<open>portRef\<close> is written
  after \<^verbatim>\<open>port.open\<close> has settled, so a \<^verbatim>\<open>connect()\<close> called while the reconnect effect
  waits for its open finds no port held, and both opens go through.
\<close>

lemma overlapping_requests_open_two:
  "portRef (core (run [Mount_effect True,
       GetPorts_settles \<lparr>usbVendorId = 9025, usbProductId = 67\<rparr> (Resolved [reader_A])]
       (idle (probe True remembering_A)))) = None \<and>
   open_ports (core (run [Mount_effect True,
       GetPorts_settles \<lparr>usbVendorId = 9025, usbProductId = 67\<rparr> (Resolved [reader_A]),
       Call_connect True,
       RequestPort_settles (Some \<lparr>usbVendorId = 9025, usbProductId = 67\<rparr>) (Resolved reader_A2),
       Reopen_settles reader_A (Resolved ()),
       Open_settles reader_A2 (Resolved ())]
       (idle (probe True remembering_A)))) = {1, 4}"
  by code_simp



subsection \<open>\<^verbatim>\<open>useSerialContext\<close> outside of a provider\<close>

text \<open>
  Claim C10. Outside of a provider \<^verbatim>\<open>useSerialContext()\<close> returns a value whose flags
  are false and whose error is null; its \<^verbatim>\<open>connect\<close>, \<^verbatim>\<open>disconnect\<close> and \<^verbatim>\<open>send\<close> resolve
  and change nothing, and its \<^verbatim>\<open>setOnTagRead\<close> changes nothing.
\<close>

theorem useSerialContext_stub:
  "\<not> cv_isSupported (useSerialContext None) \<and>
   \<not> cv_isConnected (useSerialContext None) \<and>
   \<not> cv_isReconnecting (useSerialContext None) \<and>
   cv_error (useSerialContext None) = None \<and>
   cv_connect (useSerialContext None) w = (Resolved (), w) \<and>
   cv_disconnect (useSerialContext None) w = (Resolved (), w) \<and>
   cv_send (useSerialContext None) text w = (Resolved (), w) \<and>
   cv_setOnTagRead (useSerialContext None) callback w = w"
  by (simp add: useSerialContext_def)

end
